theory Spec2Isabelle
  imports Main
begin

section \<open>Strings\<close>

text \<open>
  Python \<open>str\<close> values are modelled as \<open>string\<close>. The character classes \<open>\s\<close>
  and \<open>\d\<close>, \<open>str.strip\<close> and \<open>str.upper\<close> are modelled on the ASCII range; the
  euro sign of the source's patterns is written as its three UTF-8 bytes.
\<close>

definition is_space :: "char \<Rightarrow> bool" where
  "is_space c = (c \<in> set [CHR 0x09, CHR 0x0A, CHR 0x0B, CHR 0x0C, CHR 0x0D,
                            CHR 0x1C, CHR 0x1D, CHR 0x1E, CHR 0x1F, CHR 0x20])"

definition is_digit :: "char \<Rightarrow> bool" where
  "is_digit c = (c \<in> set ''0123456789'')"

definition is_upper_or_digit :: "char \<Rightarrow> bool" where
  "is_upper_or_digit c = (c \<in> set ''ABCDEFGHIJKLMNOPQRSTUVWXYZ0123456789'')"

definition euro :: string where
  "euro = [CHR 0xE2, CHR 0x82, CHR 0xAC]"

fun upper_char :: "char \<Rightarrow> char" where
  "upper_char c =
     (case map_of (zip ''abcdefghijklmnopqrstuvwxyz'' ''ABCDEFGHIJKLMNOPQRSTUVWXYZ'') c of
        Some u \<Rightarrow> u | None \<Rightarrow> c)"

definition upper :: "string \<Rightarrow> string" where
  "upper s = map upper_char s"

text \<open>\<open>needle in hay\<close> on strings.\<close>

fun starts_with :: "string \<Rightarrow> string \<Rightarrow> bool" where
  "starts_with [] s = True"
| "starts_with (p # ps) [] = False"
| "starts_with (p # ps) (c # cs) = (p = c \<and> starts_with ps cs)"

fun contains :: "string \<Rightarrow> string \<Rightarrow> bool" where
  "contains needle [] = (needle = [])"
| "contains needle (c # cs) = (starts_with needle (c # cs) \<or> contains needle cs)"

text \<open>\<open>s.strip()\<close>, \<open>s.rstrip(chars)\<close> and \<open>s.replace(old, new)\<close>.\<close>

definition strip :: "string \<Rightarrow> string" where
  "strip s = rev (dropWhile is_space (rev (dropWhile is_space s)))"

definition rstrip :: "string \<Rightarrow> string \<Rightarrow> string" where
  "rstrip chars s = rev (dropWhile (\<lambda>c. c \<in> set chars) (rev s))"

function replace :: "string \<Rightarrow> string \<Rightarrow> string \<Rightarrow> string" where
  "replace old new s =
     (if old = [] then s
      else if s = [] then []
      else if starts_with old s then new @ replace old new (drop (length old) s)
      else hd s # replace old new (tl s))"
  by pat_completeness auto
termination
  by (relation "measure (\<lambda>(old, new, s). length s)") auto

declare replace.simps [simp del]

text \<open>\<open>str(n)\<close> for an integer, \<open>s.zfill(width)\<close>, and \<open>int(s)\<close> on a digit string.\<close>

definition digit_char :: "nat \<Rightarrow> char" where
  "digit_char d = ''0123456789'' ! (d mod 10)"

function str_nat :: "nat \<Rightarrow> string" where
  "str_nat n = (if n < 10 then [digit_char n] else str_nat (n div 10) @ [digit_char (n mod 10)])"
  by pat_completeness auto
termination
  by (relation "measure id") auto

declare str_nat.simps [simp del]

definition str_int :: "int \<Rightarrow> string" where
  "str_int i = (if i < 0 then CHR ''-'' # str_nat (nat (- i)) else str_nat (nat i))"

definition zfill :: "nat \<Rightarrow> string \<Rightarrow> string" where
  "zfill width s =
     (case s of
        c # r \<Rightarrow>
          if c = CHR ''-'' \<or> c = CHR ''+''
          then c # replicate (width - length s) CHR ''0'' @ r
          else replicate (width - length s) CHR ''0'' @ s
      | [] \<Rightarrow> replicate width CHR ''0'')"

definition digit_val :: "char \<Rightarrow> nat" where
  "digit_val c = (case map_of (zip ''0123456789'' [0 ..< 10]) c of Some d \<Rightarrow> d | None \<Rightarrow> 0)"

definition nat_of_digits :: "string \<Rightarrow> nat" where
  "nat_of_digits s = foldl (\<lambda>acc c. 10 * acc + digit_val c) 0 s"

section \<open>Regular expressions\<close>

text \<open>
  The patterns of the source are built from literals, repeated character classes,
  alternatives and capture groups. A pattern maps the remaining input to the list of its
  possible matches, in the order in which the backtracking matcher of \<open>re\<close> tries them;
  each match carries the groups captured so far and the input left over.
\<close>

type_synonym rx = "string \<Rightarrow> (string list \<times> string) list"

definition lit :: "string \<Rightarrow> rx" where
  "lit l s = (if starts_with l s then [([], drop (length l) s)] else [])"

text \<open>A character class repeated between \<open>lo\<close> and \<open>hi\<close> times, greedy or lazy.\<close>

definition rep :: "(char \<Rightarrow> bool) \<Rightarrow> nat \<Rightarrow> nat option \<Rightarrow> bool \<Rightarrow> rx" where
  "rep cls lo hi greedy s =
     (let n = length (takeWhile cls s);
          top = (case hi of None \<Rightarrow> n | Some h \<Rightarrow> min h n);
          counts = [lo ..< Suc top]
      in map (\<lambda>k. ([], drop k s)) (if greedy then rev counts else counts))"

definition seq :: "rx \<Rightarrow> rx \<Rightarrow> rx" where
  "seq p q s = concat (map (\<lambda>(c1, r1). map (\<lambda>(c2, r2). (c1 @ c2, r2)) (q r1)) (p s))"

definition alt :: "rx \<Rightarrow> rx \<Rightarrow> rx" where
  "alt p q s = p s @ q s"

definition grp :: "rx \<Rightarrow> rx" where
  "grp p s = map (\<lambda>(c, r). (c @ [take (length s - length r) s], r)) (p s)"

definition eps :: rx where
  "eps s = [([], s)]"

definition seqs :: "rx list \<Rightarrow> rx" where
  "seqs ps = foldr seq ps eps"

definition star :: "(char \<Rightarrow> bool) \<Rightarrow> rx" where
  "star cls = rep cls 0 None True"

definition plus :: "(char \<Rightarrow> bool) \<Rightarrow> rx" where
  "plus cls = rep cls 1 None True"

definition one :: "(char \<Rightarrow> bool) \<Rightarrow> rx" where
  "one cls = rep cls 1 (Some 1) True"


text \<open>\<open>re.match\<close>: the first match at the start; \<open>re.search\<close>: the leftmost start that matches.\<close>

definition re_match :: "rx \<Rightarrow> string \<Rightarrow> (string list \<times> string) option" where
  "re_match p s = (case p s of [] \<Rightarrow> None | m # _ \<Rightarrow> Some m)"

fun re_search :: "rx \<Rightarrow> string \<Rightarrow> string list option" where
  "re_search p [] = map_option fst (re_match p [])"
| "re_search p (c # cs) =
     (case re_match p (c # cs) of Some m \<Rightarrow> Some (fst m) | None \<Rightarrow> re_search p cs)"

text \<open>\<open>match.group(1)\<close> of a search, \<open>None\<close> when the pattern does not match.\<close>

definition search1 :: "rx \<Rightarrow> string \<Rightarrow> string option" where
  "search1 p s = (case re_search p s of Some (g # _) \<Rightarrow> Some g | _ \<Rightarrow> None)"

section \<open>Dates\<close>

text \<open>
  \<open>datetime.strptime(s, fmt)\<close> for formats made of \<open>%d\<close>, \<open>%m\<close>, \<open>%Y\<close> and literal
  characters: the format becomes a pattern (one group per directive), the pattern has to
  match at the start and to consume the whole string, and the numbers have to form a
  calendar date. Every failure is the \<open>ValueError\<close> of the source: \<open>None\<close>.
\<close>

definition rx_d :: rx where
  "rx_d = grp (alt (seq (lit ''3'') (one (\<lambda>c. c \<in> set ''01'')))
              (alt (seq (one (\<lambda>c. c \<in> set ''12'')) (one is_digit))
              (alt (seq (lit ''0'') (one (\<lambda>c. c \<in> set ''123456789'')))
              (alt (one (\<lambda>c. c \<in> set ''123456789''))
                   (seq (lit '' '') (one (\<lambda>c. c \<in> set ''123456789'')))))))"

definition rx_m :: rx where
  "rx_m = grp (alt (seq (lit ''1'') (one (\<lambda>c. c \<in> set ''012'')))
              (alt (seq (lit ''0'') (one (\<lambda>c. c \<in> set ''123456789'')))
                   (one (\<lambda>c. c \<in> set ''123456789''))))"

definition rx_Y :: rx where
  "rx_Y = grp (rep is_digit 4 (Some 4) True)"

definition rx_fail :: rx where
  "rx_fail s = []"

definition directive :: "char \<Rightarrow> rx" where
  "directive c =
     (if c = CHR ''d'' then rx_d else if c = CHR ''m'' then rx_m
      else if c = CHR ''Y'' then rx_Y else rx_fail)"

fun fmt_rx :: "string \<Rightarrow> rx" where
  "fmt_rx [] = eps"
| "fmt_rx [c] = (if c = CHR ''%'' then rx_fail else lit [c])"
| "fmt_rx (c # d # r) =
     (if c = CHR ''%'' then seq (directive d) (fmt_rx r) else seq (lit [c]) (fmt_rx (d # r)))"

fun fmt_dirs :: "string \<Rightarrow> string" where
  "fmt_dirs [] = []"
| "fmt_dirs [c] = []"
| "fmt_dirs (c # d # r) = (if c = CHR ''%'' then d # fmt_dirs r else fmt_dirs (d # r))"

definition is_leap :: "nat \<Rightarrow> bool" where
  "is_leap y = (y mod 4 = 0 \<and> (y mod 100 \<noteq> 0 \<or> y mod 400 = 0))"

definition days_in_month :: "nat \<Rightarrow> nat \<Rightarrow> nat" where
  "days_in_month y m =
     (if m = 2 then (if is_leap y then 29 else 28)
      else if m \<in> set [4, 6, 9, 11] then 30 else 31)"

definition valid_date :: "nat \<Rightarrow> nat \<Rightarrow> nat \<Rightarrow> bool" where
  "valid_date y m d =
     (1 \<le> y \<and> y \<le> 9999 \<and> 1 \<le> m \<and> m \<le> 12 \<and> 1 \<le> d \<and> d \<le> days_in_month y m)"

definition strptime :: "string \<Rightarrow> string \<Rightarrow> (nat \<times> nat \<times> nat) option" where
  "strptime s fmt =
     (case re_match (fmt_rx fmt) s of
        None \<Rightarrow> None
      | Some (caps, rest) \<Rightarrow>
          if rest \<noteq> [] then None
          else
            let found = map_of (zip (fmt_dirs fmt) caps);
                y = (case found CHR ''Y'' of Some g \<Rightarrow> nat_of_digits g | None \<Rightarrow> 1900);
                m = (case found CHR ''m'' of Some g \<Rightarrow> nat_of_digits g | None \<Rightarrow> 1);
                d = (case found CHR ''d'' of Some g \<Rightarrow> nat_of_digits g | None \<Rightarrow> 1)
            in if valid_date y m d then Some (y, m, d) else None)"

text \<open>\<open>date.strftime('%Y-%m-%d')\<close>, the year written with four digits.\<close>

definition strftime_ymd :: "nat \<times> nat \<times> nat \<Rightarrow> string" where
  "strftime_ymd dt =
     (case dt of (y, m, d) \<Rightarrow>
        zfill 4 (str_nat y) @ ''-'' @ zfill 2 (str_nat m) @ ''-'' @ zfill 2 (str_nat d))"

text \<open>
  The loop \<open>for fmt in [...]: try: ... break except ValueError: continue\<close>, which
  \<open>parse_purchase_order\<close> runs on the date string it found.
\<close>

definition date_formats :: "string list" where
  "date_formats = [''%d/%m/%Y'', ''%d-%m-%Y'', ''%m/%d/%Y'', ''%m-%d-%Y'']"

fun try_formats :: "string list \<Rightarrow> string \<Rightarrow> string option" where
  "try_formats [] date_str = None"
| "try_formats (fmt # fmts) date_str =
     (case strptime date_str fmt of
        Some parsed_date \<Rightarrow> Some (strftime_ymd parsed_date)
      | None \<Rightarrow> try_formats fmts date_str)"

definition normalize_date :: "string \<Rightarrow> string option" where
  "normalize_date date_str = try_formats date_formats date_str"

section \<open>Numbers\<close>

text \<open>
  A Python number is an \<open>int\<close> or a \<open>float\<close>. The floats are a type parameter \<open>'f\<close>,
  and what the source does with them is a record of operations: \<open>float(s)\<close> (\<open>None\<close>
  where it raises \<open>ValueError\<close>), the conversion of an \<open>int\<close>, \<open>+\<close>, \<open>*\<close>, \<open><\<close>, \<open>==\<close>,
  \<open>int(x)\<close> (\<open>None\<close> where it raises, on \<open>inf\<close> and \<open>nan\<close>), \<open>str(x)\<close>, the float
  that \<open>sum\<close> returns for a list with a float in it, and the literal \<open>0.22\<close>. Nothing is
  assumed about them.
\<close>

datatype 'f pynum = PInt int | PFloat 'f

record 'f float_ops =
  fl_parse :: "string \<Rightarrow> 'f option"
  fl_of_int :: "int \<Rightarrow> 'f"
  fl_add :: "'f \<Rightarrow> 'f \<Rightarrow> 'f"
  fl_mul :: "'f \<Rightarrow> 'f \<Rightarrow> 'f"
  fl_less :: "'f \<Rightarrow> 'f \<Rightarrow> bool"
  fl_eq :: "'f \<Rightarrow> 'f \<Rightarrow> bool"
  fl_trunc :: "'f \<Rightarrow> int option"
  fl_repr :: "'f \<Rightarrow> string"
  fl_sum :: "'f pynum list \<Rightarrow> 'f"
  fl_vat_rate :: "'f"

fun py_add :: "'f float_ops \<Rightarrow> 'f pynum \<Rightarrow> 'f pynum \<Rightarrow> 'f pynum" where
  "py_add ops (PInt a) (PInt b) = PInt (a + b)"
| "py_add ops (PInt a) (PFloat y) = PFloat (fl_add ops (fl_of_int ops a) y)"
| "py_add ops (PFloat x) (PInt b) = PFloat (fl_add ops x (fl_of_int ops b))"
| "py_add ops (PFloat x) (PFloat y) = PFloat (fl_add ops x y)"

fun py_mul_float :: "'f float_ops \<Rightarrow> 'f pynum \<Rightarrow> 'f \<Rightarrow> 'f pynum" where
  "py_mul_float ops (PInt a) y = PFloat (fl_mul ops (fl_of_int ops a) y)"
| "py_mul_float ops (PFloat x) y = PFloat (fl_mul ops x y)"

text \<open>\<open>x > n\<close> and \<open>x == n\<close> for an integer \<open>n\<close>, \<open>int(x)\<close>, and the truth value of \<open>x\<close>.\<close>

fun py_gt_int :: "'f float_ops \<Rightarrow> 'f pynum \<Rightarrow> int \<Rightarrow> bool" where
  "py_gt_int ops (PInt a) n = (n < a)"
| "py_gt_int ops (PFloat x) n = fl_less ops (fl_of_int ops n) x"

fun py_eq_int :: "'f float_ops \<Rightarrow> 'f pynum \<Rightarrow> int \<Rightarrow> bool" where
  "py_eq_int ops (PInt a) n = (a = n)"
| "py_eq_int ops (PFloat x) n = fl_eq ops x (fl_of_int ops n)"

fun py_int :: "'f float_ops \<Rightarrow> 'f pynum \<Rightarrow> int option" where
  "py_int ops (PInt a) = Some a"
| "py_int ops (PFloat x) = fl_trunc ops x"

definition py_truthy :: "'f float_ops \<Rightarrow> 'f pynum \<Rightarrow> bool" where
  "py_truthy ops x = (\<not> py_eq_int ops x 0)"

text \<open>
  \<open>sum(xs)\<close>: an \<open>int\<close> when every element is an \<open>int\<close> (0 for the empty list), and
  otherwise the float that \<open>sum\<close> computes.
\<close>

fun is_pint :: "'f pynum \<Rightarrow> bool" where
  "is_pint (PInt a) = True"
| "is_pint (PFloat x) = False"

fun pint_val :: "'f pynum \<Rightarrow> int" where
  "pint_val (PInt a) = a"
| "pint_val (PFloat x) = 0"

definition py_sum :: "'f float_ops \<Rightarrow> 'f pynum list \<Rightarrow> 'f pynum" where
  "py_sum ops xs =
     (if list_all is_pint xs then PInt (sum_list (map pint_val xs)) else PFloat (fl_sum ops xs))"

section \<open>Data model\<close>

text \<open>
  The dictionaries of \<open>self.data\<close>. A key whose value is \<open>None\<close> is \<open>None\<close>; the key
  \<open>gia_fatturato\<close>, which \<open>process_pdf\<close> adds, is a flag. The fields of a purchase order
  and of a generated invoice carry a prefix where an estimate has a key of the same name.
\<close>

record 'f item =
  description :: string
  qty :: "'f pynum"
  price :: "'f pynum"
  discount :: int
  total :: "'f pynum"
  codice_ricambio :: "string option"

record 'f preventivo =
  prev_id :: string
  prev_filename :: string
  pratica_fornitore :: "string option"
  pratica_hertz :: "string option"
  targa :: "string option"
  telaio :: "string option"
  km :: "string option"
  veicolo :: "string option"
  items :: "'f item list"
  totale :: "'f pynum"
  prev_data_caricamento :: string
  prev_gia_fatturato :: bool

record 'f purchase_order =
  po_id :: string
  po_filename :: string
  po_number :: "string option"
  po_pratica_hertz :: "string option"
  po_targa :: "string option"
  vin :: "string option"
  unit_number :: "string option"
  model :: "string option"
  mileage :: "string option"
  po_date :: "string option"
  po_total :: "'f option"
  po_description :: "string option"
  has_tyres :: bool
  po_data_caricamento :: string
  po_gia_fatturato :: bool

record 'f fattura =
  fatt_po_number :: "string option"
  fatt_targa :: string
  fatt_pratica_hertz :: "string option"
  fatt_filename :: string
  numero_fattura :: int
  tipo :: string
  fatt_totale :: "'f pynum"
  data_po :: "string option"
  data_generazione :: string

record config =
  last_number_hg :: int
  last_number_hm :: int
  year :: int

record 'f data =
  preventivi :: "'f preventivo list"
  purchase_orders :: "'f purchase_order list"
  fatture_generate :: "'f fattura list"
  config :: config

text \<open>
  What the operations read from outside: the clock (\<open>datetime.now()\<close>: its year, the
  timestamp of an identifier, the ISO timestamp) and whether rendering the document,
  writing the invoice file and \<open>save_data\<close> succeed.
\<close>

record env =
  now_year :: int
  now_id :: string
  now_iso :: string
  render_ok :: bool
  write_ok :: bool
  save_ok :: bool

datatype error = ValueError | RenderError | WriteError | SaveError

section \<open>The estimate parser\<close>

definition newline :: char where
  "newline = CHR 0x0A"

definition is_num_char :: "char \<Rightarrow> bool" where
  "is_num_char c = (is_digit c \<or> c = CHR ''.'' \<or> c = CHR '','')"

text \<open>The pattern \<open>Label:\s*(class+)\<close> of the scalar fields.\<close>

definition labeled :: "string \<Rightarrow> (char \<Rightarrow> bool) \<Rightarrow> rx" where
  "labeled label cls = seqs [lit label, star is_space, grp (plus cls)]"

definition re_pratica_fornitore :: rx where
  "re_pratica_fornitore = labeled ''Pratica Fornitore:'' is_digit"

definition re_pratica_hertz :: rx where
  "re_pratica_hertz = labeled ''Pratica Hertz:'' is_digit"

definition re_targa :: rx where
  "re_targa = labeled ''Targa:'' is_upper_or_digit"

definition re_telaio :: rx where
  "re_telaio = labeled ''Telaio:'' is_upper_or_digit"

definition re_km :: rx where
  "re_km = labeled ''Km:'' is_digit"

definition re_veicolo :: rx where
  "re_veicolo = labeled ''Veicolo (Marca - Modello - Versione):'' (\<lambda>c. c \<noteq> newline)"

text \<open>\<open>Smaltimento Rifiuti[^\d]*(\<euro>?[\d.,]+)\<close> and \<open>ore\s+([\d.,]+)\s*x\s*([\d.,]+)\<close>.\<close>

definition re_smaltimento :: rx where
  "re_smaltimento =
     seqs [lit ''Smaltimento Rifiuti'', star (\<lambda>c. \<not> is_digit c),
           grp (seq (alt (lit euro) eps) (plus is_num_char))]"

definition re_ore :: rx where
  "re_ore =
     seqs [lit ''ore'', plus is_space, grp (plus is_num_char), star is_space, lit ''x'',
           star is_space, grp (plus is_num_char)]"

text \<open>\<open>parse_num\<close>, the local function of \<open>_extract_items_from_table\<close>.\<close>

definition parse_num :: "'f float_ops \<Rightarrow> string \<Rightarrow> 'f pynum" where
  "parse_num ops s =
     (if s = [] then PInt 0
      else case fl_parse ops (strip (replace euro [] (replace '','' ''.'' s))) of
             Some x \<Rightarrow> PFloat x
           | None \<Rightarrow> PInt 0)"

definition cell_or :: "string list \<Rightarrow> nat \<Rightarrow> string \<Rightarrow> string" where
  "cell_or row i dflt = (if i < length row then row ! i else dflt)"

definition header_tokens :: "string list" where
  "header_tokens = [''C.R.'', ''Voci di Danno'', ''IMPONIBILE'', ''Totale tempi'']"

definition non_item_keywords :: "string list" where
  "non_item_keywords =
     [''Ricambi'', ''Materiale'', ''Smaltimento'', ''Manodopera'', ''TOTALI'', ''Note:'']"

text \<open>
  The body of the loop of \<open>_extract_items_from_table\<close> for one row: the item it appends,
  or \<open>None\<close> where the row is skipped (a \<open>continue\<close>, a total that is not positive, or
  an exception inside the \<open>try\<close>). The source looks for the header tokens in \<open>str(row)\<close>,
  the printed list; a token has no quote and no backslash, so it is in the printed list
  exactly when it is in one of the cells.
\<close>

definition row_item :: "'f float_ops \<Rightarrow> string option list \<Rightarrow> 'f item option" where
  "row_item ops raw =
     (if raw = [] \<or> length raw < 20 then None
      else
        let row = map (\<lambda>cell. case cell of Some c \<Rightarrow> c | None \<Rightarrow> []) raw
        in if list_ex (\<lambda>h. list_ex (contains h) row) header_tokens then None
           else
             let codice = (if row ! 0 \<noteq> [] then Some (strip (row ! 0)) else None);
                 desc = (if row ! 1 \<noteq> [] then strip (row ! 1) else [])
             in if desc = [] then None
                else if list_ex (\<lambda>kw. contains kw desc) non_item_keywords then None
                else
                  let tempo = parse_num ops (cell_or row 18 []);
                      qty0 = parse_num ops (cell_or row 19 []);
                      prezzo = parse_num ops (cell_or row 20 []);
                      sconto = parse_num ops (cell_or row 23 ''0'');
                      totale = parse_num ops (cell_or row 24 []);
                      qty1 = (if py_eq_int ops qty0 0 \<and> py_gt_int ops tempo 1 then tempo else qty0);
                      qty2 = (if py_eq_int ops qty1 0 then PInt 1 else qty1)
                  in if py_gt_int ops totale 0
                     then
                       (case py_int ops qty2 of
                          None \<Rightarrow> None
                        | Some n \<Rightarrow>
                            (case (if py_truthy ops sconto then py_int ops sconto else Some 0) of
                               None \<Rightarrow> None
                             | Some disc \<Rightarrow>
                                 Some \<lparr>description =
                                         (case codice of
                                            None \<Rightarrow> desc
                                          | Some c \<Rightarrow> if c = [] then desc else desc @ '' - C.R: '' @ c),
                                       qty = (if py_eq_int ops qty2 n then PInt n else qty2),
                                       price = prezzo,
                                       discount = disc,
                                       total = totale,
                                       codice_ricambio = codice\<rparr>))
                     else None)"

fun extract_items_rows :: "'f float_ops \<Rightarrow> string option list list \<Rightarrow> 'f item list" where
  "extract_items_rows ops [] = []"
| "extract_items_rows ops (row # rows) =
     (case row_item ops row of
        Some it \<Rightarrow> it # extract_items_rows ops rows
      | None \<Rightarrow> extract_items_rows ops rows)"

definition extract_items_from_table ::
  "'f float_ops \<Rightarrow> string option list list list \<Rightarrow> 'f item list" where
  "extract_items_from_table ops tables = extract_items_rows ops (concat tables)"

text \<open>The disposal fee found in the text, appended unless an item already names it.\<close>

definition add_smaltimento :: "'f float_ops \<Rightarrow> string \<Rightarrow> 'f item list \<Rightarrow> 'f item list" where
  "add_smaltimento ops text its =
     (case search1 re_smaltimento text of
        None \<Rightarrow> its
      | Some g \<Rightarrow>
          (case fl_parse ops (strip (replace '','' ''.'' (replace euro [] g))) of
             None \<Rightarrow> its
           | Some val \<Rightarrow>
               if fl_less ops (fl_of_int ops 0) val
                  \<and> \<not> list_ex (\<lambda>i. contains ''Smaltimento'' (description i)) its
               then its @ [\<lparr>description = ''Smaltimento Rifiuti'', qty = PInt 1,
                            price = PFloat val, discount = 0, total = PFloat val,
                            codice_ricambio = None\<rparr>]
               else its))"

text \<open>The labor items: for every row of every table, the three kinds of labor in turn.\<close>

definition join_cells :: "string option list \<Rightarrow> string" where
  "join_cells row =
     (case filter (\<lambda>c. c \<noteq> []) (map (\<lambda>cell. case cell of Some c \<Rightarrow> c | None \<Rightarrow> []) row) of
        [] \<Rightarrow> []
      | c # cs \<Rightarrow> c @ concat (map (\<lambda>x. '' '' @ x) cs))"

definition add_manodopera ::
  "'f float_ops \<Rightarrow> string \<Rightarrow> 'f item list \<Rightarrow> string \<Rightarrow> 'f item list" where
  "add_manodopera ops row_text its tipo_lav =
     (if contains (''Manodopera '' @ tipo_lav) row_text
      then
        (case re_search re_ore row_text of
           Some [g1, g2] \<Rightarrow>
             (case fl_parse ops (replace '','' ''.'' g1) of
                None \<Rightarrow> its
              | Some ore \<Rightarrow>
                  (case fl_parse ops (replace '','' ''.'' g2) of
                     None \<Rightarrow> its
                   | Some tariffa \<Rightarrow>
                       let tot = fl_mul ops ore tariffa
                       in if fl_less ops (fl_of_int ops 0) tot
                             \<and> \<not> list_ex (\<lambda>i. contains (''Manodopera '' @ tipo_lav) (description i)) its
                          then its @ [\<lparr>description =
                                         ''Manodopera '' @ tipo_lav @ '' ('' @ fl_repr ops ore
                                         @ ''h x '' @ fl_repr ops tariffa @ euro @ ''/h)'',
                                       qty = PInt 1, price = PFloat tot, discount = 0,
                                       total = PFloat tot, codice_ricambio = None\<rparr>]
                          else its))
         | _ \<Rightarrow> its)
      else its)"

fun add_manodopera_rows ::
  "'f float_ops \<Rightarrow> string option list list \<Rightarrow> 'f item list \<Rightarrow> 'f item list" where
  "add_manodopera_rows ops [] its = its"
| "add_manodopera_rows ops (row # rows) its =
     (if row = [] then add_manodopera_rows ops rows its
      else add_manodopera_rows ops rows
             (foldl (add_manodopera ops (join_cells row)) its
                [''meccanica'', ''carrozzeria'', ''verniciatura'']))"

definition parse_preventivo ::
  "'f float_ops \<Rightarrow> env \<Rightarrow> string \<Rightarrow> string \<Rightarrow> string option list list list \<Rightarrow> 'f preventivo" where
  "parse_preventivo ops e text filename tables =
     (let its0 = (if tables \<noteq> [] then extract_items_from_table ops tables else []);
          its1 = add_smaltimento ops text its0;
          its2 = (if tables \<noteq> [] then add_manodopera_rows ops (concat tables) its1 else its1)
      in \<lparr>prev_id = now_id e,
          prev_filename = filename,
          pratica_fornitore = search1 re_pratica_fornitore text,
          pratica_hertz = search1 re_pratica_hertz text,
          targa = map_option (rstrip ''T'') (search1 re_targa text),
          telaio = search1 re_telaio text,
          km = search1 re_km text,
          veicolo = map_option strip (search1 re_veicolo text),
          items = its2,
          totale = py_sum ops (map total its2),
          prev_data_caricamento = now_iso e,
          prev_gia_fatturato = False\<rparr>)"

section \<open>The purchase order parser\<close>

definition re_po_number :: rx where
  "re_po_number = seqs [lit ''PURCHASE ORDER #'', rep (\<lambda>c. True) 0 None False, grp (plus is_digit)]"

definition re_wd :: rx where
  "re_wd = labeled ''WD:'' is_digit"

definition re_plate_number :: rx where
  "re_plate_number = labeled ''Plate Number:'' is_upper_or_digit"

definition re_vin :: rx where
  "re_vin = labeled ''Serial Number (VIN):'' is_upper_or_digit"

definition re_unit_number :: rx where
  "re_unit_number = labeled ''Unit Number:'' is_digit"

definition re_model :: rx where
  "re_model = labeled ''Model:'' (\<lambda>c. c \<noteq> newline)"

definition re_mileage :: rx where
  "re_mileage = labeled ''Mileage:'' is_digit"

definition re_total :: rx where
  "re_total =
     seqs [lit ''TOTAL'', plus is_space, lit euro, star is_space,
           grp (plus (\<lambda>c. is_digit c \<or> c = CHR ''.''))]"

text \<open>\<open>\d{1,2}[/-]\d{1,2}[/-]\d{4}\<close>, after \<open>Date:\s*\<close> and on its own.\<close>

definition is_date_sep :: "char \<Rightarrow> bool" where
  "is_date_sep c = (c = CHR ''/'' \<or> c = CHR ''-'')"

definition re_date_shape :: rx where
  "re_date_shape =
     seqs [rep is_digit 1 (Some 2) True, one is_date_sep, rep is_digit 1 (Some 2) True,
           one is_date_sep, rep is_digit 4 (Some 4) True]"

definition re_date_labeled :: rx where
  "re_date_labeled = seqs [lit ''Date:'', star is_space, grp re_date_shape]"

definition re_date_bare :: rx where
  "re_date_bare = grp re_date_shape"

text \<open>
  The two steps that set \<open>data['date']\<close>: the labeled date, and, while the date is still
  unset, the first date-shaped token of the text.
\<close>

definition extract_date :: "string \<Rightarrow> string option" where
  "extract_date text =
     (let d1 = (case search1 re_date_labeled text of
                  Some date_str \<Rightarrow> normalize_date date_str
                | None \<Rightarrow> None)
      in case d1 of
           Some d \<Rightarrow> Some d
         | None \<Rightarrow>
             (case search1 re_date_bare text of
                Some date_str \<Rightarrow> normalize_date date_str
              | None \<Rightarrow> None))"

text \<open>
  \<open>float(match.group(1))\<close> of the total is outside any \<open>try\<close>: where it raises, the
  parser raises.
\<close>

definition parse_purchase_order ::
  "'f float_ops \<Rightarrow> env \<Rightarrow> string \<Rightarrow> string \<Rightarrow> error + 'f purchase_order" where
  "parse_purchase_order ops e text filename =
     (let tot = (case search1 re_total text of
                   None \<Rightarrow> Inr None
                 | Some g \<Rightarrow>
                     (case fl_parse ops g of None \<Rightarrow> Inl ValueError | Some x \<Rightarrow> Inr (Some x)))
      in case tot of
           Inl err \<Rightarrow> Inl err
         | Inr t \<Rightarrow>
             Inr \<lparr>po_id = now_id e,
                  po_filename = filename,
                  po_number = search1 re_po_number text,
                  po_pratica_hertz = search1 re_wd text,
                  po_targa = search1 re_plate_number text,
                  vin = search1 re_vin text,
                  unit_number = search1 re_unit_number text,
                  model = map_option strip (search1 re_model text),
                  mileage = search1 re_mileage text,
                  po_date = extract_date text,
                  po_total = t,
                  po_description = Some (take 500 text),
                  has_tyres = contains ''TYRES'' (upper text),
                  po_data_caricamento = now_iso e,
                  po_gia_fatturato = False\<rparr>)"

section \<open>Ingestion\<close>

definition detect_type :: "string \<Rightarrow> string option" where
  "detect_type text =
     (if contains ''PREVENTIVO'' (upper text) then Some ''preventivo''
      else if contains ''PURCHASE ORDER'' (upper text) then Some ''purchase_order''
      else None)"

datatype 'f doc = Preventivo "'f preventivo" | PurchaseOrder "'f purchase_order"

text \<open>
  \<open>process_pdf\<close> on the text and the tables extracted from the file. The result is the
  pair \<open>(doc, doc_type)\<close> of the source, \<open>None\<close> for \<open>(None, None)\<close>, or the exception that
  leaves the function; the second component is \<open>self.data\<close> afterwards.
\<close>

definition process_pdf ::
  "'f float_ops \<Rightarrow> env \<Rightarrow> 'f data \<Rightarrow> string \<Rightarrow> string option list list list \<Rightarrow> string
     \<Rightarrow> (error + ('f doc \<times> string) option) \<times> 'f data" where
  "process_pdf ops e d text tables filename =
     (let doc_type = detect_type text
      in if doc_type = Some ''preventivo''
         then
           let doc = parse_preventivo ops e text filename tables;
               fatturati = map fatt_pratica_hertz (fatture_generate d)
           in if pratica_hertz doc \<in> set fatturati
              then (Inr (Some (Preventivo (doc\<lparr>prev_gia_fatturato := True\<rparr>),
                              ''preventivo_fatturato'')), d)
              else
                let existing = map pratica_hertz (preventivi d)
                in if pratica_hertz doc \<notin> set existing
                   then
                     let d' = d\<lparr>preventivi := preventivi d @ [doc]\<rparr>
                     in if save_ok e then (Inr (Some (Preventivo doc, ''preventivo'')), d')
                        else (Inl SaveError, d')
                   else (Inr (Some (Preventivo doc, ''preventivo'')), d)
         else if doc_type = Some ''purchase_order''
         then
           (case parse_purchase_order ops e text filename of
              Inl err \<Rightarrow> (Inl err, d)
            | Inr doc \<Rightarrow>
                let fatturati = map fatt_po_number (fatture_generate d)
                in if po_number doc \<in> set fatturati
                   then (Inr (Some (PurchaseOrder (doc\<lparr>po_gia_fatturato := True\<rparr>),
                                   ''purchase_order_fatturato'')), d)
                   else
                     let existing = map po_number (purchase_orders d)
                     in if po_number doc \<notin> set existing
                        then
                          let d' = d\<lparr>purchase_orders := purchase_orders d @ [doc]\<rparr>
                          in if save_ok e
                             then (Inr (Some (PurchaseOrder doc, ''purchase_order'')), d')
                             else (Inl SaveError, d')
                        else (Inr (Some (PurchaseOrder doc, ''purchase_order'')), d))
         else (Inr None, d))"

section \<open>Matching\<close>

definition is_po_invoiced :: "'f data \<Rightarrow> string option \<Rightarrow> bool" where
  "is_po_invoiced d n = (n \<in> set (map fatt_po_number (fatture_generate d)))"

text \<open>
  The inner loop of \<open>get_stats\<close> for one estimate: it stops at the first purchase order
  with the estimate's case id (the \<open>break\<close>), and appends the pair only if that purchase
  order is not invoiced.
\<close>

fun match_prev ::
  "'f data \<Rightarrow> 'f preventivo \<Rightarrow> 'f purchase_order list
     \<Rightarrow> ('f preventivo \<times> 'f purchase_order) list" where
  "match_prev d prev [] = []"
| "match_prev d prev (po # pos) =
     (if pratica_hertz prev = po_pratica_hertz po
      then (if \<not> is_po_invoiced d (po_number po) then [(prev, po)] else [])
      else match_prev d prev pos)"

fun match_all ::
  "'f data \<Rightarrow> 'f preventivo list \<Rightarrow> 'f purchase_order list
     \<Rightarrow> ('f preventivo \<times> 'f purchase_order) list" where
  "match_all d [] pos = []"
| "match_all d (prev # prevs) pos = match_prev d prev pos @ match_all d prevs pos"

record 'f stats =
  pdf_in_attesa :: nat
  lavori_pronti :: nat
  in_attesa_associazione :: nat
  ordini_inviati :: nat
  n_preventivi :: nat
  n_po :: nat
  prev_in_attesa :: "'f preventivo list"
  po_in_attesa :: "'f purchase_order list"
  matches :: "('f preventivo \<times> 'f purchase_order) list"

definition get_stats :: "'f data \<Rightarrow> 'f stats" where
  "get_stats d =
     (let prevs = preventivi d;
          pos = purchase_orders d;
          ms = match_all d prevs pos;
          matched_pratiche_prev = set (map (\<lambda>m. pratica_hertz (fst m)) ms);
          matched_pratiche_po = set (map (\<lambda>m. po_pratica_hertz (snd m)) ms);
          prev_att = filter (\<lambda>p. pratica_hertz p \<notin> matched_pratiche_prev) prevs;
          po_att = filter (\<lambda>p. po_pratica_hertz p \<notin> matched_pratiche_po
                                \<and> \<not> is_po_invoiced d (po_number p)) pos
      in \<lparr>pdf_in_attesa = length prev_att + length po_att,
          lavori_pronti = length ms,
          in_attesa_associazione = length prev_att + length po_att,
          ordini_inviati = length (fatture_generate d),
          n_preventivi = length prevs,
          n_po = length pos,
          prev_in_attesa = prev_att,
          po_in_attesa = po_att,
          matches = ms\<rparr>)"

section \<open>Invoice generation\<close>

text \<open>The year check and the choice of the counter: the configuration afterwards, the
  number issued and the numbering suffix.\<close>

definition rollover :: "int \<Rightarrow> config \<Rightarrow> config" where
  "rollover current_year c =
     (if year c \<noteq> current_year
      then c\<lparr>year := current_year, last_number_hg := 0, last_number_hm := 0\<rparr>
      else c)"

definition next_number :: "bool \<Rightarrow> config \<Rightarrow> config \<times> int \<times> string" where
  "next_number is_tyres c =
     (if is_tyres
      then (c\<lparr>last_number_hg := last_number_hg c + 1\<rparr>, last_number_hg c + 1, ''HG'')
      else (c\<lparr>last_number_hm := last_number_hm c + 1\<rparr>, last_number_hm c + 1, ''HM''))"

text \<open>\<open>a or b or dflt\<close> on optional strings, and a value printed inside an f-string.\<close>

fun first_truthy :: "string option list \<Rightarrow> string \<Rightarrow> string" where
  "first_truthy [] dflt = dflt"
| "first_truthy (None # xs) dflt = first_truthy xs dflt"
| "first_truthy (Some s # xs) dflt = (if s \<noteq> [] then s else first_truthy xs dflt)"

definition str_opt :: "string option \<Rightarrow> string" where
  "str_opt x = (case x of Some s \<Rightarrow> s | None \<Rightarrow> ''None'')"

text \<open>
  \<open>generate_xml\<close>. Building and printing the document is the step \<open>render_ok\<close>, writing
  the invoice file is \<open>write_ok\<close>, \<open>save_data\<close> is \<open>save_ok\<close>; an exception leaves
  \<open>self.data\<close> as it is at that point. The result is \<open>(filename, total)\<close>.
\<close>

definition generate_xml ::
  "'f float_ops \<Rightarrow> env \<Rightarrow> 'f data \<Rightarrow> 'f preventivo \<times> 'f purchase_order
     \<Rightarrow> (error + string \<times> 'f pynum) \<times> 'f data" where
  "generate_xml ops e d m =
     (let prev = fst m;
          po = snd m;
          c1 = rollover (now_year e) (config d);
          is_tyres = has_tyres po;
          (c2, invoice_number, numbering_suffix) = next_number is_tyres c1;
          d1 = d\<lparr>config := c2\<rparr>;
          total_without_tax = py_sum ops (map total (items prev));
          vat_amount = py_mul_float ops total_without_tax (fl_vat_rate ops);
          tot = py_add ops total_without_tax vat_amount
      in if \<not> render_ok e then (Inl RenderError, d1)
         else
           let targa_f = first_truthy [targa prev, po_targa po] ''NOTARGA'';
               date_po = po_date po;
               date_prefix = (case date_po of
                                Some s \<Rightarrow> if s \<noteq> [] then replace ''-'' [] s @ ''_'' else []
                              | None \<Rightarrow> []);
               invoice_str = zfill 3 (str_int invoice_number);
               filename = ''Fatt_'' @ invoice_str @ ''_PO_'' @ str_opt (po_number po) @ ''_''
                          @ targa_f @ ''.xml''
           in if \<not> write_ok e then (Inl WriteError, d1)
              else
                let d2 = d1\<lparr>fatture_generate := fatture_generate d1 @
                            [\<lparr>fatt_po_number = po_number po,
                              fatt_targa = targa_f,
                              fatt_pratica_hertz = pratica_hertz prev,
                              fatt_filename = filename,
                              numero_fattura = invoice_number,
                              tipo = numbering_suffix,
                              fatt_totale = tot,
                              data_po = date_po,
                              data_generazione = now_iso e\<rparr>]\<rparr>;
                    d3 = d2\<lparr>preventivi :=
                              filter (\<lambda>p. pratica_hertz p \<noteq> pratica_hertz prev) (preventivi d2),
                            purchase_orders :=
                              filter (\<lambda>p. po_number p \<noteq> po_number po) (purchase_orders d2)\<rparr>
                in if save_ok e then (Inr (filename, tot), d3) else (Inl SaveError, d3))"

text \<open>An instance of the float operations for examples: amounts counted in cents.\<close>

definition cents_parse :: "string \<Rightarrow> int option" where
  "cents_parse s =
     (let ip = takeWhile is_digit s; r = dropWhile is_digit s
      in if ip = [] then None
         else if r = [] then Some (int (nat_of_digits ip) * 100)
         else if hd r = CHR ''.'' \<and> length (tl r) = 2 \<and> list_all is_digit (tl r)
         then Some (int (nat_of_digits ip) * 100 + int (nat_of_digits (tl r)))
         else None)"

definition cents_ops :: "int float_ops" where
  "cents_ops =
     \<lparr>fl_parse = cents_parse,
      fl_of_int = (\<lambda>i. i * 100),
      fl_add = (\<lambda>a b. a + b),
      fl_mul = (\<lambda>a b. a * b div 100),
      fl_less = (\<lambda>a b. a < b),
      fl_eq = (\<lambda>a b. a = b),
      fl_trunc = (\<lambda>a. Some (a div 100)),
      fl_repr = (\<lambda>a. str_int (a div 100) @ ''.'' @ zfill 2 (str_int (a mod 100))),
      fl_sum = (\<lambda>xs. sum_list (map (\<lambda>x. case x of PInt a \<Rightarrow> a * 100 | PFloat c \<Rightarrow> c) xs)),
      fl_vat_rate = 22\<rparr>"

section \<open>Example inputs\<close>

definition ex_env :: env where
  "ex_env = \<lparr>now_year = 2024, now_id = ''20240105093000000000'',
             now_iso = ''2024-01-05T09:30:00'', render_ok = True, write_ok = True,
             save_ok = True\<rparr>"

definition ex_item :: "int item" where
  "ex_item = \<lparr>description = ''Filtro olio - C.R: X1'', qty = PInt 2, price = PFloat 50000,
              discount = 0, total = PFloat 100000, codice_ricambio = Some ''X1''\<rparr>"

definition ex_prev :: "int preventivo" where
  "ex_prev = \<lparr>prev_id = ''1'', prev_filename = ''prev.pdf'', pratica_fornitore = None,
              pratica_hertz = Some ''1001'', targa = Some ''AB123CD'', telaio = None,
              km = None, veicolo = None, items = [ex_item], totale = PFloat 100000,
              prev_data_caricamento = ''2023-12-20T10:00:00'', prev_gia_fatturato = False\<rparr>"

definition ex_po :: "int purchase_order" where
  "ex_po = \<lparr>po_id = ''2'', po_filename = ''po.pdf'', po_number = Some ''777'',
            po_pratica_hertz = Some ''1001'', po_targa = Some ''AB123CD'', vin = None,
            unit_number = None, model = None, mileage = None,
            po_date = Some ''2023-12-25'', po_total = None, po_description = Some ''PO'',
            has_tyres = False, po_data_caricamento = ''2023-12-21T10:00:00'',
            po_gia_fatturato = False\<rparr>"

text \<open>A second purchase order of the same case, and the invoice of the first one.\<close>

definition ex_po2 :: "int purchase_order" where
  "ex_po2 = ex_po\<lparr>po_id := ''3'', po_number := Some ''778''\<rparr>"

definition ex_fattura :: "int fattura" where
  "ex_fattura = \<lparr>fatt_po_number = Some ''777'', fatt_targa = ''AB123CD'',
                 fatt_pratica_hertz = Some ''1000'', fatt_filename = ''Fatt_007_PO_777_AB123CD.xml'',
                 numero_fattura = 7, tipo = ''HM'', fatt_totale = PFloat 122000,
                 data_po = Some ''2023-12-25'', data_generazione = ''2023-12-28T10:00:00''\<rparr>"

text \<open>A repository whose numbering year is 2023, and one whose year is 2024.\<close>

definition ex_data_2023 :: "int data" where
  "ex_data_2023 = \<lparr>preventivi = [ex_prev], purchase_orders = [ex_po], fatture_generate = [],
                   config = \<lparr>last_number_hg = 5, last_number_hm = 7, year = 2023\<rparr>\<rparr>"

definition ex_data_2024 :: "int data" where
  "ex_data_2024 = \<lparr>preventivi = [ex_prev], purchase_orders = [ex_po], fatture_generate = [],
                   config = \<lparr>last_number_hg = 5, last_number_hm = 7, year = 2024\<rparr>\<rparr>"

text \<open>A repository in which the first purchase order of case 1001 is already invoiced.\<close>

definition ex_data_invoiced :: "int data" where
  "ex_data_invoiced = \<lparr>preventivi = [ex_prev], purchase_orders = [ex_po, ex_po2],
                       fatture_generate = [ex_fattura],
                       config = \<lparr>last_number_hg = 5, last_number_hm = 7, year = 2024\<rparr>\<rparr>"




text \<open>A row of an estimate table with a priced item, and the text of an estimate.\<close>

definition ex_row :: "string option list" where
  "ex_row = [Some ''X1'', Some ''Filtro olio''] @ replicate 16 None
            @ [Some ''0'', Some ''2'', Some ''500.00'', None, None, Some ''0'', Some ''1000.00'']"

definition ex_text_prev :: string where
  "ex_text_prev = ''PREVENTIVO Pratica Hertz: 1001 Totale: 9999.00 Smaltimento Rifiuti 5.00''"

section \<open>Numbering\<close>

lemmas ex_defs = ex_env_def ex_item_def ex_prev_def ex_po_def ex_po2_def ex_fattura_def
  ex_data_2023_def ex_data_2024_def ex_data_invoiced_def

text \<open>
  C1. For every call of \<open>generate_xml\<close>: the stored year is the current year afterwards;
  the counter of the selected category (the tyres counter when \<open>has_tyres\<close> holds, the
  other one otherwise) is its previous value plus one, where the previous value counts
  as zero when the stored year differed from the current year; the counter of the
  other category keeps its value, or is zero after a change of year; and when the call
  returns, the one record it appends carries the number issued, which is the new value
  of the selected counter, and the tag \<open>HG\<close> or \<open>HM\<close>. So the first number issued
  after a change of year is 1.
\<close>

theorem generate_xml_issues_next_number:
  "let c = config d;
       r = generate_xml ops e d m;
       c' = config (snd r);
       base_hg = (if year c = now_year e then last_number_hg c else 0);
       base_hm = (if year c = now_year e then last_number_hm c else 0);
       issued = (if has_tyres (snd m) then base_hg + 1 else base_hm + 1)
   in year c' = now_year e
      \<and> last_number_hg c' = (if has_tyres (snd m) then base_hg + 1 else base_hg)
      \<and> last_number_hm c' = (if has_tyres (snd m) then base_hm else base_hm + 1)
      \<and> (case fst r of
            Inl err \<Rightarrow> True
          | Inr res \<Rightarrow>
              (\<exists>inv. fatture_generate (snd r) = fatture_generate d @ [inv]
                     \<and> numero_fattura inv = issued
                     \<and> tipo inv = (if has_tyres (snd m) then ''HG'' else ''HM'')))"
  by (auto simp add: generate_xml_def Let_def rollover_def next_number_def split: prod.splits)

theorem generate_xml_issues_next_number_witness:
  "let r = generate_xml cents_ops ex_env ex_data_2023 (ex_prev, ex_po)
   in year (config (snd r)) = 2024
      \<and> last_number_hg (config (snd r)) = 0
      \<and> last_number_hm (config (snd r)) = 1
      \<and> map numero_fattura (fatture_generate (snd r)) = [1]
      \<and> map tipo (fatture_generate (snd r)) = [''HM'']"
  using generate_xml_issues_next_number
    [where ops = cents_ops and e = ex_env and d = ex_data_2023 and m = "(ex_prev, ex_po)"]
  by (simp add: Let_def generate_xml_def rollover_def next_number_def ex_defs)

section \<open>Failures of the generation\<close>

text \<open>
  C2, as the claim states it, fails: with a file that cannot be written, the call raises
  and the counter of the selected category has gone from 7 to 8.
\<close>

theorem generate_xml_not_atomic:
  "fst (generate_xml cents_ops (ex_env\<lparr>write_ok := False\<rparr>) ex_data_2024 (ex_prev, ex_po))
     = Inl WriteError
   \<and> last_number_hm (config ex_data_2024) = 7
   \<and> last_number_hm (config (snd (generate_xml cents_ops (ex_env\<lparr>write_ok := False\<rparr>)
        ex_data_2024 (ex_prev, ex_po)))) = 8"
  by code_simp

text \<open>
  C2, amended. Whatever the outcome of \<open>generate_xml\<close>, the year check and the increment
  of the selected counter have taken place. When rendering or writing the invoice file
  fails, the call raises that error, no record is added and the active estimates and
  purchase orders are unchanged. Otherwise the record is appended and the estimates and
  purchase orders are removed, all three together; a failure of \<open>save_data\<close> comes
  after them.
\<close>

theorem generate_xml_failure_state:
  "let r = generate_xml ops e d m;
       d' = snd r
   in config d' = fst (next_number (has_tyres (snd m)) (rollover (now_year e) (config d)))
      \<and> (if render_ok e \<and> write_ok e
          then (\<exists>inv. fatture_generate d' = fatture_generate d @ [inv])
               \<and> preventivi d' =
                   filter (\<lambda>p. pratica_hertz p \<noteq> pratica_hertz (fst m)) (preventivi d)
               \<and> purchase_orders d' =
                   filter (\<lambda>p. po_number p \<noteq> po_number (snd m)) (purchase_orders d)
               \<and> fst r \<noteq> Inl RenderError \<and> fst r \<noteq> Inl WriteError
          else fatture_generate d' = fatture_generate d
               \<and> preventivi d' = preventivi d
               \<and> purchase_orders d' = purchase_orders d
               \<and> fst r = Inl (if render_ok e then WriteError else RenderError))"
  by (auto simp add: generate_xml_def Let_def split: prod.splits)

theorem generate_xml_failure_state_witness:
  "snd (generate_xml cents_ops (ex_env\<lparr>write_ok := False\<rparr>) ex_data_2024 (ex_prev, ex_po))
     = ex_data_2024\<lparr>config := \<lparr>last_number_hg = 5, last_number_hm = 8, year = 2024\<rparr>\<rparr>"
  using generate_xml_failure_state
    [where ops = cents_ops and e = "ex_env\<lparr>write_ok := False\<rparr>" and d = ex_data_2024
       and m = "(ex_prev, ex_po)"]
  by (simp add: Let_def rollover_def next_number_def ex_data_2024_def ex_env_def ex_po_def)

section \<open>The file name\<close>

text \<open>
  C5. The purchase order of the example has the date 2023-12-25, and the file name that
  \<open>generate_xml\<close> returns for it has no date in front.
\<close>

theorem generate_xml_filename_without_date:
  "po_date ex_po = Some ''2023-12-25''
   \<and> fst (generate_xml cents_ops ex_env ex_data_2024 (ex_prev, ex_po))
       = Inr (''Fatt_008_PO_777_AB123CD.xml'', PFloat 122000)"
  by code_simp

section \<open>What the generation leaves unchanged\<close>

text \<open>
  C9, as the claim states it, fails: when the stored year is not the current year, the
  call changes the stored year and resets the counter of the other category.
\<close>

theorem generate_xml_year_changes:
  "fst (generate_xml cents_ops ex_env ex_data_2023 (ex_prev, ex_po))
     = Inr (''Fatt_001_PO_777_AB123CD.xml'', PFloat 122000)
   \<and> year (config ex_data_2023) = 2023
   \<and> year (config (snd (generate_xml cents_ops ex_env ex_data_2023 (ex_prev, ex_po)))) = 2024
   \<and> last_number_hg (config ex_data_2023) = 5
   \<and> last_number_hg (config (snd (generate_xml cents_ops ex_env ex_data_2023 (ex_prev, ex_po)))) = 0"
  by code_simp

text \<open>
  C9, amended. When \<open>generate_xml\<close> returns, the active estimates are the former ones
  without every estimate of the matched estimate's case id, the active purchase orders
  are the former ones without every purchase order of the matched order's number, the
  generated invoices are the former ones followed by one record, and the configuration
  is the former one with the selected counter incremented when the stored year is the
  current year; when the year differs, the stored year is the current year, the
  selected counter is 1 and the other counter is 0.
\<close>

theorem generate_xml_frame:
  "let r = generate_xml ops e d m;
       d' = snd r;
       c = config d
   in case fst r of
        Inl err \<Rightarrow> True
      | Inr res \<Rightarrow>
          preventivi d' = filter (\<lambda>p. pratica_hertz p \<noteq> pratica_hertz (fst m)) (preventivi d)
          \<and> purchase_orders d' =
              filter (\<lambda>p. po_number p \<noteq> po_number (snd m)) (purchase_orders d)
          \<and> (\<exists>inv. fatture_generate d' = fatture_generate d @ [inv])
          \<and> config d' =
              (if year c = now_year e
               then (if has_tyres (snd m) then c\<lparr>last_number_hg := last_number_hg c + 1\<rparr>
                     else c\<lparr>last_number_hm := last_number_hm c + 1\<rparr>)
               else (if has_tyres (snd m)
                     then \<lparr>last_number_hg = 1, last_number_hm = 0, year = now_year e\<rparr>
                     else \<lparr>last_number_hg = 0, last_number_hm = 1, year = now_year e\<rparr>))"
  by (auto simp add: generate_xml_def Let_def rollover_def next_number_def split: prod.splits)

theorem generate_xml_frame_witness:
  "let d' = snd (generate_xml cents_ops ex_env ex_data_2024 (ex_prev, ex_po))
   in preventivi d' = [] \<and> purchase_orders d' = []
      \<and> length (fatture_generate d') = 1
      \<and> config d' = \<lparr>last_number_hg = 5, last_number_hm = 8, year = 2024\<rparr>"
  using generate_xml_frame
    [where ops = cents_ops and e = ex_env and d = ex_data_2024 and m = "(ex_prev, ex_po)"]
  by (simp add: Let_def generate_xml_def rollover_def next_number_def ex_data_2024_def
      ex_env_def ex_po_def ex_prev_def)

section \<open>The pairs of the matcher\<close>

lemma match_prev_find:
  "match_prev d prev pos =
     (case find (\<lambda>po. pratica_hertz prev = po_pratica_hertz po) pos of
        None \<Rightarrow> []
      | Some po \<Rightarrow> if is_po_invoiced d (po_number po) then [] else [(prev, po)])"
  by (induction pos) auto

lemma match_all_concat:
  "match_all d prevs pos = concat (map (\<lambda>prev. match_prev d prev pos) prevs)"
  by (induction prevs) auto

text \<open>
  C4, as the claim states it, fails: the estimate of case 1001 is active, the first
  active purchase order of that case (777) is invoiced, the second one (778) is not,
  and \<open>get_stats\<close> pairs the estimate with neither.
\<close>

theorem get_stats_skips_later_po:
  "preventivi ex_data_invoiced = [ex_prev]
   \<and> purchase_orders ex_data_invoiced = [ex_po, ex_po2]
   \<and> po_pratica_hertz ex_po = pratica_hertz ex_prev
   \<and> po_pratica_hertz ex_po2 = pratica_hertz ex_prev
   \<and> is_po_invoiced ex_data_invoiced (po_number ex_po)
   \<and> \<not> is_po_invoiced ex_data_invoiced (po_number ex_po2)
   \<and> matches (get_stats ex_data_invoiced) = []"
  by code_simp

text \<open>
  C4, amended. \<open>get_stats\<close> goes through the active estimates in order; for each one it
  takes the first active purchase order with the estimate's case id, and it lists the
  pair when the number of that purchase order is not invoiced; when it is invoiced, or
  when no purchase order has the case id, the estimate has no pair. \<open>get_stats\<close> is a
  function of the repository: it returns the statistics and changes nothing.
\<close>

theorem get_stats_first_po_decides:
  "matches (get_stats d) =
     concat (map (\<lambda>prev.
        case find (\<lambda>po. pratica_hertz prev = po_pratica_hertz po) (purchase_orders d) of
          None \<Rightarrow> []
        | Some po \<Rightarrow> if is_po_invoiced d (po_number po) then [] else [(prev, po)])
      (preventivi d))"
  by (simp add: get_stats_def Let_def match_all_concat match_prev_find)

theorem get_stats_first_po_decides_witness:
  "matches (get_stats ex_data_2024) = [(ex_prev, ex_po)]"
  using get_stats_first_po_decides [where d = ex_data_2024]
  by (simp add: ex_data_2024_def ex_prev_def ex_po_def is_po_invoiced_def)

section \<open>Natural keys at ingestion\<close>

lemma count_key_distinct:
  "distinct (map f xs) \<Longrightarrow> length (filter (\<lambda>x. f x = k) xs) \<le> 1"
  by (induction xs) (auto simp: filter_empty_conv image_iff)

lemma count_key_append:
  "distinct (map f xs) \<Longrightarrow> f x \<notin> set (map f xs)
     \<Longrightarrow> length (filter (\<lambda>y. f y = f x) (xs @ [x])) \<le> 1"
  by (auto simp: filter_empty_conv image_iff)


text \<open>The three branches of \<open>process_pdf\<close>.\<close>

lemma process_pdf_preventivo:
  "detect_type text = Some ''preventivo'' \<Longrightarrow>
   process_pdf ops e d text tables filename =
     (let doc = parse_preventivo ops e text filename tables
      in if pratica_hertz doc \<in> set (map fatt_pratica_hertz (fatture_generate d))
         then (Inr (Some (Preventivo (doc\<lparr>prev_gia_fatturato := True\<rparr>),
                         ''preventivo_fatturato'')), d)
         else if pratica_hertz doc \<in> set (map pratica_hertz (preventivi d))
         then (Inr (Some (Preventivo doc, ''preventivo'')), d)
         else (if save_ok e then Inr (Some (Preventivo doc, ''preventivo'')) else Inl SaveError,
               d\<lparr>preventivi := preventivi d @ [doc]\<rparr>))"
  by (simp add: process_pdf_def Let_def)

lemma process_pdf_purchase_order:
  "detect_type text = Some ''purchase_order'' \<Longrightarrow>
   process_pdf ops e d text tables filename =
     (case parse_purchase_order ops e text filename of
        Inl err \<Rightarrow> (Inl err, d)
      | Inr doc \<Rightarrow>
          if po_number doc \<in> set (map fatt_po_number (fatture_generate d))
          then (Inr (Some (PurchaseOrder (doc\<lparr>po_gia_fatturato := True\<rparr>),
                          ''purchase_order_fatturato'')), d)
          else if po_number doc \<in> set (map po_number (purchase_orders d))
          then (Inr (Some (PurchaseOrder doc, ''purchase_order'')), d)
          else (if save_ok e then Inr (Some (PurchaseOrder doc, ''purchase_order''))
                else Inl SaveError,
                d\<lparr>purchase_orders := purchase_orders d @ [doc]\<rparr>))"
  by (simp add: process_pdf_def Let_def split: sum.splits)

lemma process_pdf_unknown:
  "detect_type text \<noteq> Some ''preventivo'' \<Longrightarrow> detect_type text \<noteq> Some ''purchase_order'' \<Longrightarrow>
   process_pdf ops e d text tables filename = (Inr None, d)"
  by (simp add: process_pdf_def Let_def)



text \<open>
  C3. In a repository whose active estimates have distinct case ids and whose active
  purchase orders have distinct numbers, \<open>process_pdf\<close> leaves them distinct, and it
  never changes the generated invoices or the numbering. For an estimate: when its case
  id is among the generated invoices, the result is the status \<open>preventivo_fatturato\<close>
  and the repository is unchanged; when it is among the active estimates, the
  repository is unchanged; otherwise the estimate is appended; in every case at most one
  active estimate has that case id. The same holds for a purchase order and its number,
  with the status \<open>purchase_order_fatturato\<close>; a parser error and an unrecognized text
  leave the repository unchanged.
\<close>

theorem process_pdf_keeps_keys_unique:
  assumes "distinct (map pratica_hertz (preventivi d))"
    and "distinct (map po_number (purchase_orders d))"
  shows
    "let r = process_pdf ops e d text tables filename;
         d' = snd r
     in distinct (map pratica_hertz (preventivi d'))
        \<and> distinct (map po_number (purchase_orders d'))
        \<and> fatture_generate d' = fatture_generate d
        \<and> config d' = config d
        \<and> (if detect_type text = Some ''preventivo''
            then
              (let doc = parse_preventivo ops e text filename tables;
                   k = pratica_hertz doc
               in purchase_orders d' = purchase_orders d
                  \<and> (if k \<in> set (map fatt_pratica_hertz (fatture_generate d))
                      then r = (Inr (Some (Preventivo (doc\<lparr>prev_gia_fatturato := True\<rparr>),
                                           ''preventivo_fatturato'')), d)
                      else if k \<in> set (map pratica_hertz (preventivi d))
                      then r = (Inr (Some (Preventivo doc, ''preventivo'')), d)
                      else preventivi d' = preventivi d @ [doc])
                  \<and> length (filter (\<lambda>p. pratica_hertz p = k) (preventivi d')) \<le> 1)
            else if detect_type text = Some ''purchase_order''
            then
              (case parse_purchase_order ops e text filename of
                 Inl err \<Rightarrow> r = (Inl err, d)
               | Inr doc \<Rightarrow>
                   preventivi d' = preventivi d
                   \<and> (if po_number doc \<in> set (map fatt_po_number (fatture_generate d))
                       then r = (Inr (Some (PurchaseOrder (doc\<lparr>po_gia_fatturato := True\<rparr>),
                                            ''purchase_order_fatturato'')), d)
                       else if po_number doc \<in> set (map po_number (purchase_orders d))
                       then r = (Inr (Some (PurchaseOrder doc, ''purchase_order'')), d)
                       else purchase_orders d' = purchase_orders d @ [doc])
                   \<and> length (filter (\<lambda>p. po_number p = po_number doc) (purchase_orders d')) \<le> 1)
            else r = (Inr None, d))"
proof (cases "detect_type text = Some ''preventivo''")
  case True
  note eq = process_pdf_preventivo [OF True, of ops e d tables filename]
  show ?thesis
    unfolding eq Let_def
    using True assms count_key_distinct [OF assms(1)] count_key_append [OF assms(1)]
    by (simp del: filter_append)
next
  case False
  show ?thesis
  proof (cases "detect_type text = Some ''purchase_order''")
    case True
    note eq = process_pdf_purchase_order [OF True, of ops e d tables filename]
    show ?thesis
      unfolding eq Let_def
      using True assms count_key_distinct [OF assms(2)] count_key_append [OF assms(2)]
      by (simp del: filter_append split: sum.splits)
  next
    case no_po: False
    show ?thesis
      using False no_po assms by (simp add: process_pdf_unknown Let_def)
  qed
qed

theorem process_pdf_keeps_keys_unique_witness:
  "distinct (map pratica_hertz (preventivi ex_data_2024))
   \<and> distinct (map po_number (purchase_orders ex_data_2024))
   \<and> snd (process_pdf cents_ops ex_env ex_data_2024 ''PREVENTIVO Pratica Hertz: 1001'' []
            ''again.pdf'') = ex_data_2024
   \<and> map pratica_hertz (preventivi ex_data_2024) = [Some ''1001'']"
  using process_pdf_keeps_keys_unique
    [of ex_data_2024 cents_ops ex_env "''PREVENTIVO Pratica Hertz: 1001''" "[]" "''again.pdf''"]
  by code_simp





section \<open>What a pattern captures\<close>

lemma seq_results:
  "(c, r) \<in> set (seq p q s)
     \<Longrightarrow> \<exists>c1 r1 c2. (c1, r1) \<in> set (p s) \<and> (c2, r) \<in> set (q r1) \<and> c = c1 @ c2"
  by (auto simp add: seq_def)

lemma rep_results:
  assumes "(c, r) \<in> set (rep cls lo hi greedy s)"
  shows "c = [] \<and> (\<exists>k. lo \<le> k \<and> k \<le> length (takeWhile cls s) \<and> r = drop k s)"
proof -
  let ?n = "length (takeWhile cls s)"
  let ?top = "case hi of None \<Rightarrow> ?n | Some h \<Rightarrow> min h ?n"
  have top: "?top \<le> ?n" by (simp split: option.splits)
  have "set (rep cls lo hi greedy s) = (\<lambda>k. ([], drop k s)) ` set [lo ..< Suc ?top]"
    unfolding rep_def Let_def by (simp del: upt_Suc)
  with assms obtain k where k: "k \<in> set [lo ..< Suc ?top]" and cr: "(c, r) = ([], drop k s)"
    by blast
  from k have "lo \<le> k \<and> k \<le> ?top" by (simp del: upt_Suc)
  with top have "lo \<le> k \<and> k \<le> ?n" by linarith
  with cr show ?thesis by auto
qed

lemma take_takeWhile_all:
  "k \<le> length (takeWhile P s) \<Longrightarrow> list_all P (take k s)"
proof (induction s arbitrary: k)
  case Nil
  then show ?case by simp
next
  case (Cons x xs)
  then show ?case by (cases k) (auto split: if_splits)
qed

lemma grp_plus_results:
  assumes "(c, r) \<in> set (grp (plus cls) s)"
  shows "\<exists>g. c = [g] \<and> g \<noteq> [] \<and> list_all cls g"
proof -
  from assms obtain c0 where m: "(c0, r) \<in> set (plus cls s)"
    and c: "c = c0 @ [take (length s - length r) s]"
    by (auto simp add: grp_def)
  from rep_results [OF m [unfolded plus_def]] obtain k where
    c0: "c0 = []" and k: "1 \<le> k" "k \<le> length (takeWhile cls s)" and r: "r = drop k s"
    by auto
  have ks: "k \<le> length s"
    using k(2) length_takeWhile_le [of cls s] by linarith
  then have t: "take (length s - length r) s = take k s"
    using r by simp
  have "take k s \<noteq> []" using k(1) ks by auto
  moreover have "list_all cls (take k s)" using take_takeWhile_all [OF k(2)] .
  ultimately show ?thesis using c c0 t by simp
qed

lemma lit_results: "(c, r) \<in> set (lit l s) \<Longrightarrow> c = []"
  by (auto simp add: lit_def split: if_splits)

lemma labeled_results:
  assumes "(c, r) \<in> set (labeled label cls s)"
  shows "\<exists>g. c = [g] \<and> g \<noteq> [] \<and> list_all cls g"
proof -
  have "(c, r) \<in> set (seq (lit label) (seq (star is_space) (seq (grp (plus cls)) eps)) s)"
    using assms by (simp add: labeled_def seqs_def)
  then obtain c1 r1 ca where a1: "(c1, r1) \<in> set (lit label s)"
    and a2: "(ca, r) \<in> set (seq (star is_space) (seq (grp (plus cls)) eps) r1)"
    and ca: "c = c1 @ ca"
    using seq_results by blast
  from a2 obtain c2 r2 cb where b1: "(c2, r2) \<in> set (star is_space r1)"
    and b2: "(cb, r) \<in> set (seq (grp (plus cls)) eps r2)"
    and cb: "ca = c2 @ cb"
    using seq_results by blast
  from b2 obtain c3 r3 cc where d1: "(c3, r3) \<in> set (grp (plus cls) r2)"
    and d2: "(cc, r) \<in> set (eps r3)"
    and cc: "cb = c3 @ cc"
    using seq_results by blast
  have "c1 = []" using lit_results [OF a1] .
  moreover have "c2 = []" using rep_results [OF b1 [unfolded star_def]] by simp
  moreover have "cc = []" using d2 by (simp add: eps_def)
  ultimately have "c = c3" using ca cb cc by simp
  then show ?thesis using grp_plus_results [OF d1] by simp
qed

lemma re_match_results: "re_match p s = Some m \<Longrightarrow> m \<in> set (p s)"
  by (auto simp add: re_match_def split: list.splits)

lemma re_search_results:
  "re_search p s = Some c \<Longrightarrow> \<exists>s' r. (c, r) \<in> set (p s')"
proof (induction s)
  case Nil
  then obtain m where "re_match p [] = Some m" "c = fst m" by auto
  then show ?case using re_match_results [of p "[]" m] by (cases m) auto
next
  case (Cons x xs)
  show ?case
  proof (cases "re_match p (x # xs)")
    case None
    then show ?thesis using Cons by simp
  next
    case (Some m)
    then have "c = fst m" using Cons.prems by simp
    then show ?thesis using re_match_results [OF Some] by (cases m) auto
  qed
qed

lemma search1_labeled:
  assumes "search1 (labeled label cls) s = Some g"
  shows "g \<noteq> [] \<and> list_all cls g"
proof -
  from assms obtain c where c: "re_search (labeled label cls) s = Some c"
    by (auto simp add: search1_def split: option.splits)
  then obtain s' r where "(c, r) \<in> set (labeled label cls s')"
    using re_search_results by blast
  then obtain g' where "c = [g']" "g' \<noteq> []" "list_all cls g'"
    using labeled_results by blast
  then show ?thesis using assms c by (simp add: search1_def)
qed

lemma rev_dropWhile_rev:
  "rev (dropWhile P (rev s)) = take (length s - length (takeWhile P (rev s))) s"
proof -
  have "dropWhile P (rev s) = drop (length (takeWhile P (rev s))) (rev s)"
    by (rule dropWhile_eq_drop)
  then have "rev (dropWhile P (rev s)) = rev (drop (length (takeWhile P (rev s))) (rev s))"
    by simp
  also have "\<dots> = take (length s - length (takeWhile P (rev s))) s"
    by (simp add: rev_drop)
  finally show ?thesis .
qed

lemma rstrip_take:
  "rstrip ''T'' s = take (length s - length (takeWhile (\<lambda>c. c = CHR ''T'') (rev s))) s"
  by (simp add: rstrip_def rev_dropWhile_rev)

section \<open>The plate of an estimate\<close>

text \<open>
  C8. When the pattern \<open>Targa:\s*([A-Z0-9]+)\<close> matches, the token it captures is not
  empty and consists of capital letters and digits, and the stored plate is the token
  without its trailing letters \<open>T\<close>: a token that does not end in \<open>T\<close> is stored
  unchanged, and a token that ends in exactly one \<open>T\<close> is stored without its last
  letter.
\<close>

theorem parse_preventivo_targa:
  assumes "search1 re_targa text = Some tok"
  shows
    "let n = length (takeWhile (\<lambda>c. c = CHR ''T'') (rev tok));
         stored = targa (parse_preventivo ops e text filename tables)
     in tok \<noteq> [] \<and> list_all is_upper_or_digit tok
        \<and> stored = Some (rstrip ''T'' tok)
        \<and> (if n = 0 then stored = Some tok
            else if n = 1 then stored = Some (butlast tok)
            else stored = Some (take (length tok - n) tok))"
proof -
  have tk: "tok \<noteq> [] \<and> list_all is_upper_or_digit tok"
    using search1_labeled assms unfolding re_targa_def by blast
  have st: "targa (parse_preventivo ops e text filename tables) = Some (rstrip ''T'' tok)"
    using assms by (simp add: parse_preventivo_def Let_def)
  show ?thesis
    using tk st by (simp add: Let_def rstrip_take butlast_conv_take)
qed

theorem parse_preventivo_targa_witness:
  "search1 re_targa ''PREVENTIVO Targa: AB123CDT Km: 5'' = Some ''AB123CDT''
   \<and> targa (parse_preventivo cents_ops ex_env ''PREVENTIVO Targa: AB123CDT Km: 5'' ''a.pdf'' [])
       = Some ''AB123CD''"
proof -
  have h: "search1 re_targa ''PREVENTIVO Targa: AB123CDT Km: 5'' = Some ''AB123CDT''"
    by code_simp
  have n: "rstrip ''T'' ''AB123CDT'' = ''AB123CD''"
    by code_simp
  show ?thesis
    using h n parse_preventivo_targa [OF h, where ops = cents_ops and e = ex_env
        and filename = "''a.pdf''" and tables = "[]"]
    by (simp add: Let_def)
qed

section \<open>The total of an estimate\<close>

lemma starts_with_append: "starts_with a (a @ b)"
  by (induction a) auto

lemma add_smaltimento_appends:
  "\<exists>synth. add_smaltimento ops text its = its @ synth
     \<and> list_all (\<lambda>i. description i = ''Smaltimento Rifiuti''
                       \<or> starts_with ''Manodopera '' (description i)) synth"
  by (auto simp add: add_smaltimento_def split: option.splits)

lemma add_manodopera_appends:
  "\<exists>synth. add_manodopera ops row_text its tipo_lav = its @ synth
     \<and> list_all (\<lambda>i. description i = ''Smaltimento Rifiuti''
                       \<or> starts_with ''Manodopera '' (description i)) synth"
proof -
  have sw: "starts_with ''Manodopera '' (''Manodopera '' @ x)" for x
    by (rule starts_with_append)
  show ?thesis
    using sw
    by (auto simp add: add_manodopera_def Let_def simp del: starts_with.simps
        split: option.splits list.splits)
qed

lemma foldl_add_manodopera_appends:
  "\<exists>synth. foldl (add_manodopera ops row_text) its tipi = its @ synth
     \<and> list_all (\<lambda>i. description i = ''Smaltimento Rifiuti''
                       \<or> starts_with ''Manodopera '' (description i)) synth"
proof (induction tipi arbitrary: its)
  case Nil
  then show ?case by simp
next
  case (Cons t tipi)
  obtain s1 where s1: "add_manodopera ops row_text its t = its @ s1"
    "list_all (\<lambda>i. description i = ''Smaltimento Rifiuti''
                       \<or> starts_with ''Manodopera '' (description i)) s1"
    using add_manodopera_appends by blast
  obtain s2 where s2: "foldl (add_manodopera ops row_text) (its @ s1) tipi = (its @ s1) @ s2"
    "list_all (\<lambda>i. description i = ''Smaltimento Rifiuti''
                       \<or> starts_with ''Manodopera '' (description i)) s2"
    using Cons.IH by blast
  show ?case
    using s1 s2 by (intro exI [of _ "s1 @ s2"]) simp
qed

lemma add_manodopera_rows_appends:
  "\<exists>synth. add_manodopera_rows ops rows its = its @ synth
     \<and> list_all (\<lambda>i. description i = ''Smaltimento Rifiuti''
                       \<or> starts_with ''Manodopera '' (description i)) synth"
proof (induction rows arbitrary: its)
  case Nil
  then show ?case by simp
next
  case (Cons row rows)
  show ?case
  proof (cases "row = []")
    case True
    then show ?thesis using Cons.IH by simp
  next
    case False
    obtain s1 where s1:
      "foldl (add_manodopera ops (join_cells row)) its
         [''meccanica'', ''carrozzeria'', ''verniciatura''] = its @ s1"
      "list_all (\<lambda>i. description i = ''Smaltimento Rifiuti''
                       \<or> starts_with ''Manodopera '' (description i)) s1"
      using foldl_add_manodopera_appends by blast
    obtain s2 where s2: "add_manodopera_rows ops rows (its @ s1) = (its @ s1) @ s2"
      "list_all (\<lambda>i. description i = ''Smaltimento Rifiuti''
                       \<or> starts_with ''Manodopera '' (description i)) s2"
      using Cons.IH by blast
    have "add_manodopera_rows ops (row # rows) its = its @ (s1 @ s2)"
      using False s1(1) s2(1) by (simp del: foldl_Cons)
    then show ?thesis
      using s1(2) s2(2) by (intro exI [of _ "s1 @ s2"]) simp
  qed
qed

text \<open>
  C7. For every text and every set of tables, \<open>totale\<close> of the parsed estimate is the
  sum (Python's \<open>sum\<close>) of the \<open>total\<close> of its items, and the
  items are the items of the tables followed by the synthetic ones: the disposal fee and
  the labor items. No amount of the text enters \<open>totale\<close> in another way.
\<close>

theorem parse_preventivo_totale:
  "let p = parse_preventivo ops e text filename tables;
       table_items = (if tables \<noteq> [] then extract_items_from_table ops tables else [])
   in totale p = py_sum ops (map total (items p))
      \<and> (\<exists>synth. items p = table_items @ synth
            \<and> list_all (\<lambda>i. description i = ''Smaltimento Rifiuti''
                              \<or> starts_with ''Manodopera '' (description i)) synth)"
proof -
  let ?P = "\<lambda>i::'a item. description i = ''Smaltimento Rifiuti''
                       \<or> starts_with ''Manodopera '' (description i)"
  let ?t = "if tables \<noteq> [] then extract_items_from_table ops tables else []"
  obtain s1 where s1: "add_smaltimento ops text ?t = ?t @ s1" "list_all ?P s1"
    using add_smaltimento_appends by blast
  obtain s2 where s2: "add_manodopera_rows ops (concat tables) (?t @ s1) = (?t @ s1) @ s2"
    "list_all ?P s2"
    using add_manodopera_rows_appends by blast
  have it: "items (parse_preventivo ops e text filename tables) =
              ?t @ (if tables \<noteq> [] then s1 @ s2 else s1)"
    using s1(1) s2(1) by (cases "tables = []") (simp_all add: parse_preventivo_def Let_def)
  have tot: "totale (parse_preventivo ops e text filename tables) =
               py_sum ops (map total (items (parse_preventivo ops e text filename tables)))"
    by (simp add: parse_preventivo_def Let_def)
  have "list_all ?P (if tables \<noteq> [] then s1 @ s2 else s1)"
    using s1(2) s2(2) by simp
  then show ?thesis
    unfolding Let_def using it tot by blast
qed

theorem parse_preventivo_totale_witness:
  "map total (items (parse_preventivo cents_ops ex_env ex_text_prev ''a.pdf'' [[ex_row]]))
     = [PFloat 100000, PFloat 500]
   \<and> totale (parse_preventivo cents_ops ex_env ex_text_prev ''a.pdf'' [[ex_row]]) = PFloat 100500"
proof -
  have v: "map total (items (parse_preventivo cents_ops ex_env ex_text_prev ''a.pdf'' [[ex_row]]))
     = [PFloat 100000, PFloat 500]"
    by code_simp
  have s: "py_sum cents_ops [PFloat 100000, PFloat 500] = PFloat 100500"
    by code_simp
  show ?thesis
    using v s parse_preventivo_totale [where ops = cents_ops and e = ex_env
        and filename = "''a.pdf''" and tables = "[[ex_row]]", of ex_text_prev]
    by (simp add: Let_def)
qed

section \<open>The date of a purchase order\<close>






























end
